theory Spec2Isabelle
  imports Main "HOL-Library.Word"
begin

unbundle bit_operations_syntax

section \<open>Machine model\<close>

text \<open>
  The allocator of \<^verbatim>\<open>src/map.c\<close> keeps its allocation table inside the physical memory it
  hands out, and reaches it through raw pointers.  Memory is therefore an explicit store of
  bytes.  Every C object of the file is a 64-bit unsigned integer or a pointer of the same
  width (\<open>u64\<close>), stored little-endian as on x86-64.  Arithmetic on \<open>uint64_t\<close> values wraps
  modulo \<open>2 ^ 64\<close> (it is word arithmetic); a pointer plus an offset (\<^verbatim>\<open>&table[i]\<close>,
  \<^verbatim>\<open>dst[i]\<close>) is computed on natural numbers, so that distinct offsets from one base never
  alias.
\<close>

type_synonym u64 = "64 word"
type_synonym byte = "8 word"
type_synonym memory = "nat \<Rightarrow> byte"

text \<open>Little-endian load and store of the low \<open>k\<close> bytes of a 64-bit value.\<close>

fun load_le :: "memory \<Rightarrow> nat \<Rightarrow> nat \<Rightarrow> u64" where
  "load_le m a 0 = 0"
| "load_le m a (Suc k) = ucast (m a) OR push_bit 8 (load_le m (Suc a) k)"

fun store_le :: "memory \<Rightarrow> nat \<Rightarrow> nat \<Rightarrow> u64 \<Rightarrow> memory" where
  "store_le m a 0 v = m"
| "store_le m a (Suc k) v = store_le (m(a := ucast v)) (Suc a) k (drop_bit 8 v)"

definition load64 :: "memory \<Rightarrow> nat \<Rightarrow> u64" where
  "load64 m a = load_le m a 8"

definition store64 :: "memory \<Rightarrow> nat \<Rightarrow> u64 \<Rightarrow> memory" where
  "store64 m a v = store_le m a 8 v"

text \<open>
  Modelled from the spec: \<^verbatim>\<open>pure64_memcpy\<close> (declared in \<^verbatim>\<open>string.h\<close>, which is not under
  \<^verbatim>\<open>src/\<close>), the "memcpy equivalent" of the spec, taken as the byte loop
  \<^verbatim>\<open>for (i = 0; i < size; i++) dst[i] = src[i];\<close>.
\<close>

fun pure64_memcpy :: "memory \<Rightarrow> nat \<Rightarrow> nat \<Rightarrow> nat \<Rightarrow> memory" where
  "pure64_memcpy m dst src 0 = m"
| "pure64_memcpy m dst src (Suc n) = pure64_memcpy (m(dst := m src)) (Suc dst) (Suc src) n"

section \<open>Data model\<close>

definition BOUNDARY :: u64 where
  "BOUNDARY = 0x1000"

abbreviation NULL :: u64 where
  "NULL \<equiv> 0"

text \<open>
  Modelled from the spec: \<^verbatim>\<open>struct pure64_alloc\<close>, declared in \<^verbatim>\<open>alloc.h\<close>, which is not under
  \<^verbatim>\<open>src/\<close>.  The spec's allocation record has the attributes \<open>addr\<close>, \<open>size\<close> and
  \<open>reserved\<close>, and these are the three fields that \<^verbatim>\<open>map.c\<close> uses: \<^verbatim>\<open>addr\<close> as a pointer,
  \<^verbatim>\<open>size\<close> and \<^verbatim>\<open>reserved\<close> as \<^verbatim>\<open>uint64_t\<close>.  The record has them in that order.  The field
  names carry the prefix \<open>a_\<close> because \<open>size\<close> is a constant of HOL.
\<close>

record pure64_alloc =
  a_addr :: u64
  a_size :: u64
  a_reserved :: u64

text \<open>
  Modelled from the spec: \<^verbatim>\<open>sizeof(struct pure64_alloc)\<close>, the size of the missing
  declaration: three 8-byte fields (the spec's record of \<open>addr\<close>, \<open>size\<close> and \<open>reserved\<close>,
  the first "pointer-width").
\<close>

definition sizeof_alloc :: nat where
  "sizeof_alloc = 24"

definition read_alloc :: "memory \<Rightarrow> nat \<Rightarrow> pure64_alloc" where
  "read_alloc m p =
     \<lparr>a_addr = load64 m p, a_size = load64 m (p + 8), a_reserved = load64 m (p + 16)\<rparr>"

definition write_alloc :: "memory \<Rightarrow> nat \<Rightarrow> pure64_alloc \<Rightarrow> memory" where
  "write_alloc m p r =
     store64 (store64 (store64 m p (a_addr r)) (p + 8) (a_size r)) (p + 16) (a_reserved r)"

text \<open>\<^verbatim>\<open>&table[i]\<close> for a table that starts at \<open>tbl\<close>.\<close>

definition alloc_slot :: "nat \<Rightarrow> nat \<Rightarrow> nat" where
  "alloc_slot tbl i = tbl + sizeof_alloc * i"

text \<open>
  Modelled from the spec: \<^verbatim>\<open>struct pure64_e820\<close> and its cursor (\<^verbatim>\<open>pure64_e820_end\<close>,
  \<^verbatim>\<open>pure64_e820_usable\<close>, \<^verbatim>\<open>pure64_e820_next\<close>, declared in \<^verbatim>\<open>e820.h\<close>, which is not under
  \<^verbatim>\<open>src/\<close>).  The spec's firmware map is an immutable sequence of entries, each with a base,
  a length and a usability classification, read through an end predicate, a usable predicate
  and an advance: a list of entries, whose end is the empty list.
\<close>

record pure64_e820 =
  e_addr :: u64
  e_size :: u64
  e_usable :: bool

text \<open>
  Modelled from the spec: \<^verbatim>\<open>struct pure64_map\<close>, declared in \<^verbatim>\<open>map.h\<close>, which is not under
  \<^verbatim>\<open>src/\<close>: the four fields that \<^verbatim>\<open>map.c\<close> uses (the firmware cursor, the table's backing
  address, the count \<open>N\<close> of live records and the driver object), together with the physical
  memory the map manages.  The structure itself and the firmware map are taken to lie outside
  the memory the allocator writes.
\<close>

record pure64_map =
  e820 :: "pure64_e820 list"
  alloc_table :: u64
  alloc_count :: u64
  ahci_driver :: u64
  mem :: memory

section \<open>Properties of the store\<close>

lemma store_le_outside: "b < a \<or> a + k \<le> b \<Longrightarrow> store_le m a k v b = m b"
  by (induction k arbitrary: m a v) auto

lemma load_le_cong:
  "(\<And>j. j < k \<Longrightarrow> m (a + j) = m' (b + j)) \<Longrightarrow> load_le m a k = load_le m' b k"
proof (induction k arbitrary: a b)
  case 0
  then show ?case by simp
next
  case (Suc k)
  have "m a = m' b" using Suc.prems[of 0] by simp
  moreover have "load_le m (Suc a) k = load_le m' (Suc b) k"
    using Suc.prems[of "Suc j" for j] by (intro Suc.IH) simp
  ultimately show ?case by simp
qed

lemma byte_glue:
  "ucast (ucast (v::u64) :: byte) OR push_bit 8 (take_bit n (drop_bit 8 v)) = take_bit (8 + n) v"
  by (rule bit_word_eqI) (auto simp: bit_simps)

lemma load_store_le: "load_le (store_le m a k v) a k = take_bit (8 * k) v"
proof (induction k arbitrary: m a v)
  case 0
  then show ?case by simp
next
  case (Suc k)
  define m1 where "m1 = m(a := ucast v)"
  have b: "store_le m1 (Suc a) k (drop_bit 8 v) a = ucast v"
    by (simp add: store_le_outside m1_def)
  have r: "load_le (store_le m1 (Suc a) k (drop_bit 8 v)) (Suc a) k
             = take_bit (8 * k) (drop_bit 8 v)"
    by (rule Suc.IH)
  have "load_le (store_le m a (Suc k) v) a (Suc k)
      = ucast (ucast v :: byte) OR push_bit 8 (take_bit (8 * k) (drop_bit 8 v))"
    using b r by (simp add: m1_def)
  also have "\<dots> = take_bit (8 + 8 * k) v" by (rule byte_glue)
  finally show ?case by simp
qed

lemma store64_outside: "b < a \<or> a + 8 \<le> b \<Longrightarrow> store64 m a v b = m b"
  by (simp add: store64_def store_le_outside)

lemma load64_cong: "(\<And>j. j < 8 \<Longrightarrow> m (a + j) = m' (b + j)) \<Longrightarrow> load64 m a = load64 m' b"
  unfolding load64_def by (rule load_le_cong)

lemma load64_store64_same: "load64 (store64 m a v) a = v"
proof -
  have "take_bit 64 v = v" by (rule take_bit_word_eq_self) simp
  then show ?thesis by (simp add: load64_def store64_def load_store_le)
qed

lemma load64_store64_other:
  "b + 8 \<le> a \<or> a + 8 \<le> b \<Longrightarrow> load64 (store64 m a v) b = load64 m b"
  by (rule load64_cong) (auto simp: store64_outside)

lemma write_alloc_outside: "b < p \<or> p + 24 \<le> b \<Longrightarrow> write_alloc m p r b = m b"
  by (auto simp: write_alloc_def store64_outside)

lemma load64_write_alloc_other:
  "b + 8 \<le> p \<or> p + 24 \<le> b \<Longrightarrow> load64 (write_alloc m p r) b = load64 m b"
  by (rule load64_cong) (auto simp: write_alloc_outside)

lemma load64_write_alloc_addr: "load64 (write_alloc m p r) p = a_addr r"
  by (simp add: write_alloc_def load64_store64_same load64_store64_other)

lemma load64_write_alloc_size: "load64 (write_alloc m p r) (p + 8) = a_size r"
  by (simp add: write_alloc_def load64_store64_same load64_store64_other)

lemma load64_write_alloc_reserved: "load64 (write_alloc m p r) (p + 16) = a_reserved r"
  by (simp add: write_alloc_def load64_store64_same load64_store64_other)

lemma read_alloc_write_alloc_same: "read_alloc (write_alloc m p r) p = r"
  by (simp add: read_alloc_def load64_write_alloc_addr load64_write_alloc_size
      load64_write_alloc_reserved)


lemma memcpy_outside: "a < dst \<or> dst + n \<le> a \<Longrightarrow> pure64_memcpy m dst src n a = m a"
  by (induction n arbitrary: m dst src) auto

lemma memcpy_inside:
  "k < n \<Longrightarrow> src + k < dst \<or> dst \<le> src \<Longrightarrow> pure64_memcpy m dst src n (dst + k) = m (src + k)"
proof (induction n arbitrary: m dst src k)
  case 0
  then show ?case by simp
next
  case (Suc n)
  show ?case
  proof (cases k)
    case 0
    then show ?thesis by (simp add: memcpy_outside)
  next
    case (Suc k')
    have "pure64_memcpy (m(dst := m src)) (Suc dst) (Suc src) n (Suc dst + k')
            = (m(dst := m src)) (Suc src + k')"
      using Suc.prems Suc by (intro Suc.IH) auto
    then show ?thesis using Suc Suc.prems by auto
  qed
qed

section \<open>The allocation table\<close>

text \<open>
  One pass of the \<^verbatim>\<open>for\<close> loop of \<^verbatim>\<open>sort_alloc_table\<close>, from index \<open>i\<close>.  The index is a
  \<^verbatim>\<open>uint64_t\<close>; the guard \<open>i < n\<close> keeps \<open>i + 1\<close> from wrapping, so it is a natural number
  here.
\<close>

function sort_pass :: "nat \<Rightarrow> nat \<Rightarrow> nat \<Rightarrow> memory \<Rightarrow> bool \<Rightarrow> memory \<times> bool" where
  "sort_pass tbl n i m sorted_flag =
     (if i < n \<and> i + 1 < n then
        let a = alloc_slot tbl i;
            b = alloc_slot tbl (i + 1);
            addr_a = load64 m a;
            addr_b = load64 m b
        in if addr_a > addr_b then
             let tmp = read_alloc m a;
                 m1 = write_alloc m a (read_alloc m b);
                 m2 = write_alloc m1 b tmp
             in sort_pass tbl n (i + 1) m2 True
           else sort_pass tbl n (i + 1) m sorted_flag
      else (m, sorted_flag))"
  by pat_completeness auto
termination
  by (relation "measure (\<lambda>(tbl, n, i, m, f). n - i)") auto

declare sort_pass.simps [simp del]


text \<open>
  The measure of the \<^verbatim>\<open>goto\<close> loop: the number of inversions among the \<open>addr\<close> fields of
  the first \<open>n\<close> table slots.  A pass that sets \<^verbatim>\<open>sorted_flag\<close> removes at least one.
\<close>

fun inversions :: "u64 list \<Rightarrow> nat" where
  "inversions [] = 0"
| "inversions (x # xs) = length (filter (\<lambda>y. y < x) xs) + inversions xs"

definition table_keys :: "memory \<Rightarrow> nat \<Rightarrow> nat \<Rightarrow> u64 list" where
  "table_keys m tbl n = map (\<lambda>i. load64 m (alloc_slot tbl i)) [0..<n]"

lemma inversions_swap:
  "b < a \<Longrightarrow> inversions (us @ a # b # vs) = Suc (inversions (us @ b # a # vs))"
  by (induction us) auto

lemma upt_split3: "Suc i < n \<Longrightarrow> [0..<n] = [0..<i] @ i # Suc i # [Suc (Suc i)..<n]"
proof -
  assume h: "Suc i < n"
  have "[0..<n] = [0..<i] @ [i..<n]"
    using h upt_add_eq_append[of 0 i "n - i"] by simp
  also have "[i..<n] = i # [Suc i..<n]" using h by (simp add: upt_conv_Cons)
  also have "[Suc i..<n] = Suc i # [Suc (Suc i)..<n]" using h by (simp add: upt_conv_Cons)
  finally show ?thesis by simp
qed

lemma table_keys_split:
  assumes "Suc i < n"
  shows "table_keys m tbl n =
           map (\<lambda>j. load64 m (alloc_slot tbl j)) [0..<i]
           @ load64 m (alloc_slot tbl i) # load64 m (alloc_slot tbl (Suc i))
           # map (\<lambda>j. load64 m (alloc_slot tbl j)) [Suc (Suc i)..<n]"
  by (simp add: table_keys_def upt_split3[OF assms])

lemma table_keys_swap:
  assumes "Suc i < n"
  shows "table_keys (write_alloc (write_alloc m (alloc_slot tbl i) rb) (alloc_slot tbl (Suc i)) ra) tbl n =
           map (\<lambda>j. load64 m (alloc_slot tbl j)) [0..<i]
           @ a_addr rb # a_addr ra
           # map (\<lambda>j. load64 m (alloc_slot tbl j)) [Suc (Suc i)..<n]"
proof -
  let ?m' = "write_alloc (write_alloc m (alloc_slot tbl i) rb) (alloc_slot tbl (Suc i)) ra"
  have other: "load64 ?m' (alloc_slot tbl j) = load64 m (alloc_slot tbl j)" if "j < i \<or> Suc (Suc i) \<le> j" for j
  proof -
    have "alloc_slot tbl j + 8 \<le> alloc_slot tbl i \<or> alloc_slot tbl (Suc i) + 24 \<le> alloc_slot tbl j"
      using that by (auto simp: alloc_slot_def sizeof_alloc_def)
    moreover have "alloc_slot tbl i + 24 \<le> alloc_slot tbl (Suc i)"
      by (simp add: alloc_slot_def sizeof_alloc_def)
    ultimately show ?thesis
      by (auto simp: load64_write_alloc_other)
  qed
  have a: "load64 ?m' (alloc_slot tbl i) = a_addr rb"
    by (simp add: load64_write_alloc_other load64_write_alloc_addr alloc_slot_def sizeof_alloc_def)
  have b: "load64 ?m' (alloc_slot tbl (Suc i)) = a_addr ra"
    by (simp add: load64_write_alloc_addr)
  have "table_keys ?m' tbl n =
           map (\<lambda>j. load64 ?m' (alloc_slot tbl j)) [0..<i]
           @ load64 ?m' (alloc_slot tbl i) # load64 ?m' (alloc_slot tbl (Suc i))
           # map (\<lambda>j. load64 ?m' (alloc_slot tbl j)) [Suc (Suc i)..<n]"
    by (rule table_keys_split[OF assms])
  also have "map (\<lambda>j. load64 ?m' (alloc_slot tbl j)) [0..<i] = map (\<lambda>j. load64 m (alloc_slot tbl j)) [0..<i]"
    by (rule map_cong) (auto simp: other)
  also have "map (\<lambda>j. load64 ?m' (alloc_slot tbl j)) [Suc (Suc i)..<n] = map (\<lambda>j. load64 m (alloc_slot tbl j)) [Suc (Suc i)..<n]"
    by (rule map_cong) (auto simp: other)
  finally show ?thesis by (simp add: a b)
qed

lemma sort_pass_inversions:
  "sort_pass tbl n i m f = (m', f') \<Longrightarrow>
     inversions (table_keys m' tbl n) \<le> inversions (table_keys m tbl n) \<and>
     (f' \<and> \<not> f \<longrightarrow> inversions (table_keys m' tbl n) < inversions (table_keys m tbl n))"
proof (induction tbl n i m f arbitrary: m' f' rule: sort_pass.induct)
  case (1 tbl n i m f)
  show ?case
  proof (cases "i < n \<and> i + 1 < n")
    case False
    have "sort_pass tbl n i m f = (m, f)"
      by (subst sort_pass.simps) (simp only: False if_False)
    then show ?thesis using "1.prems" by simp
  next
    case True
    let ?a = "alloc_slot tbl i" and ?b = "alloc_slot tbl (i + 1)"
    show ?thesis
    proof (cases "load64 m ?a > load64 m ?b")
      case False
      then have "sort_pass tbl n (i + 1) m f = (m', f')"
        using "1.prems" True by (simp add: sort_pass.simps[of tbl n i])
      then show ?thesis using "1.IH"(2)[OF True refl refl refl refl False] by simp
    next
      case gt: True
      let ?m2 = "write_alloc (write_alloc m ?a (read_alloc m ?b)) ?b (read_alloc m ?a)"
      have run: "sort_pass tbl n (i + 1) ?m2 True = (m', f')"
        using "1.prems" True gt by (simp add: sort_pass.simps[of tbl n i] Let_def)
      have le: "inversions (table_keys m' tbl n) \<le> inversions (table_keys ?m2 tbl n)"
        using "1.IH"(1)[OF True refl refl refl refl gt refl refl refl run] by simp
      have "inversions (table_keys m tbl n) = Suc (inversions (table_keys ?m2 tbl n))"
        using True gt
        by (simp add: table_keys_split[of i n m] table_keys_swap[of i n] inversions_swap read_alloc_def)
      then show ?thesis using le by simp
    qed
  qed
qed

lemma sort_pass_decreases:
  "(m', True) = sort_pass tbl n 0 m False \<Longrightarrow>
     inversions (table_keys m' tbl n) < inversions (table_keys m tbl n)"
  using sort_pass_inversions[of tbl n 0 m False m' True] by simp

text \<open>
  The \<^verbatim>\<open>bubbleSortLoop\<close> label and its \<^verbatim>\<open>goto\<close>: passes are repeated until one makes no swap.
\<close>

function sort_table_mem :: "nat \<Rightarrow> nat \<Rightarrow> memory \<Rightarrow> memory" where
  "sort_table_mem tbl n m =
     (case sort_pass tbl n 0 m False of
        (m', sorted_flag) \<Rightarrow> if sorted_flag then sort_table_mem tbl n m' else m')"
  by pat_completeness auto
termination
  by (relation "measure (\<lambda>(tbl, n, m). inversions (table_keys m tbl n))")
    (auto dest: sort_pass_decreases)

declare sort_table_mem.simps [simp del]

definition sort_alloc_table :: "pure64_map \<Rightarrow> pure64_map" where
  "sort_alloc_table s =
     s\<lparr>mem := sort_table_mem (unat (alloc_table s)) (unat (alloc_count s)) (mem s)\<rparr>"

text \<open>
  \<^verbatim>\<open>find_alloc_entry\<close>: the address of the first of the \<open>n\<close> records whose \<open>addr\<close> field is
  the pointer looked up, if there is one.
\<close>

function find_alloc_entry_from :: "memory \<Rightarrow> nat \<Rightarrow> nat \<Rightarrow> u64 \<Rightarrow> nat \<Rightarrow> nat option" where
  "find_alloc_entry_from m tbl n addr i =
     (if i < n then
        if load64 m (alloc_slot tbl i) = addr then Some (alloc_slot tbl i)
        else find_alloc_entry_from m tbl n addr (i + 1)
      else None)"
  by pat_completeness auto
termination
  by (relation "measure (\<lambda>(m, tbl, n, addr, i). n - i)") auto

declare find_alloc_entry_from.simps [simp del]

definition find_alloc_entry :: "pure64_map \<Rightarrow> u64 \<Rightarrow> nat option" where
  "find_alloc_entry s addr =
     find_alloc_entry_from (mem s) (unat (alloc_table s)) (unat (alloc_count s)) addr 0"

section \<open>Placement\<close>

text \<open>
  The \<^verbatim>\<open>for\<close> loop of \<^verbatim>\<open>find_suitable_addr\<close> over the allocation table, for the firmware
  entry that starts at \<open>addr2\<close> and has \<open>size2\<close> bytes.  It returns the index at which the
  loop was left and the candidate address: the index is below \<open>n\<close> exactly when the loop was
  left by \<^verbatim>\<open>break\<close>.
\<close>

function scan_alloc_table ::
  "memory \<Rightarrow> nat \<Rightarrow> nat \<Rightarrow> u64 \<Rightarrow> u64 \<Rightarrow> u64 \<Rightarrow> nat \<Rightarrow> u64 \<Rightarrow> nat \<times> u64" where
  "scan_alloc_table m tbl n sz addr2 size2 i addr =
     (if i < n then
        let addr3 = load64 m (alloc_slot tbl i);
            size3 = load64 m (alloc_slot tbl i + 16)
        in if addr + sz > addr3 \<and> addr \<le> addr3 then
             let addr' = addr3 + size3
             in if addr' + sz \<ge> addr2 + size2 then (i, addr')
                else scan_alloc_table m tbl n sz addr2 size2 (i + 1) addr'
           else scan_alloc_table m tbl n sz addr2 size2 (i + 1) addr
      else (i, addr))"
  by pat_completeness auto
termination
  by (relation "measure (\<lambda>(m, tbl, n, sz, addr2, size2, i, addr). n - i)") auto

declare scan_alloc_table.simps [simp del]

text \<open>The \<^verbatim>\<open>while\<close> loop of \<^verbatim>\<open>find_suitable_addr\<close> over the firmware map.\<close>

fun find_suitable_addr_in :: "memory \<Rightarrow> nat \<Rightarrow> nat \<Rightarrow> u64 \<Rightarrow> pure64_e820 list \<Rightarrow> u64" where
  "find_suitable_addr_in m tbl n sz [] = NULL"
| "find_suitable_addr_in m tbl n sz (e # es) =
     (if \<not> e_usable e then find_suitable_addr_in m tbl n sz es
      else if e_size e < sz then find_suitable_addr_in m tbl n sz es
      else case scan_alloc_table m tbl n sz (e_addr e) (e_size e) 0 (e_addr e) of
             (i, addr) \<Rightarrow> if i < n then find_suitable_addr_in m tbl n sz es else addr)"

definition find_suitable_addr :: "pure64_map \<Rightarrow> u64 \<Rightarrow> u64" where
  "find_suitable_addr s sz =
     find_suitable_addr_in (mem s) (unat (alloc_table s)) (unat (alloc_count s)) sz (e820 s)"

section \<open>The public operations\<close>

text \<open>
  \<^verbatim>\<open>pure64_map_malloc\<close>, \<^verbatim>\<open>append_alloc\<close> and \<^verbatim>\<open>pure64_map_realloc\<close> call each other: malloc
  appends, append grows the table with realloc, and realloc of a null pointer is malloc.  Each
  returns its C result and the map after the call; a null pointer is \<open>0\<close>.
\<close>

function pure64_map_malloc :: "pure64_map \<Rightarrow> u64 \<Rightarrow> u64 \<times> pure64_map"
  and append_alloc :: "pure64_map \<Rightarrow> pure64_alloc \<Rightarrow> int \<times> pure64_map"
  and pure64_map_realloc :: "pure64_map \<Rightarrow> u64 \<Rightarrow> u64 \<Rightarrow> u64 \<times> pure64_map"
where
  "pure64_map_malloc s sz =
     (if alloc_table s = NULL then (NULL, s)
      else
        let sz' = (if sz mod BOUNDARY \<noteq> 0 then sz + (BOUNDARY - sz mod BOUNDARY) else sz);
            alloc = \<lparr>a_addr = find_suitable_addr s sz', a_size = sz, a_reserved = sz'\<rparr>
        in if a_addr alloc = NULL then (NULL, s)
           else case append_alloc s alloc of
                  (rc, s') \<Rightarrow> if rc \<noteq> 0 then (NULL, s') else (a_addr alloc, s'))"
| "append_alloc s alloc =
     (let alloc_table_size = (alloc_count s + 1) * word_of_nat sizeof_alloc
      in case pure64_map_realloc s (alloc_table s) alloc_table_size of
           (tbl, s1) \<Rightarrow>
             if tbl = NULL then (- 1, s1)
             else
               let s2 = s1\<lparr>alloc_table := tbl\<rparr>;
                   s3 = s2\<lparr>alloc_count := alloc_count s2 + 1\<rparr>
               in (0, s3\<lparr>mem := write_alloc (mem s3)
                                 (alloc_slot (unat (alloc_table s3)) (unat (alloc_count s3 - 1)))
                                 alloc\<rparr>))"
| "pure64_map_realloc s addr sz =
     (if addr = NULL then pure64_map_malloc s sz
      else case find_alloc_entry s addr of
             None \<Rightarrow> (NULL, s)
           | Some p \<Rightarrow>
               if load64 (mem s) (p + 16) \<ge> sz then
                 (addr, s\<lparr>mem := store64 (mem s) (p + 8) sz\<rparr>)
               else
                 let reserved =
                       (if sz mod BOUNDARY \<noteq> 0 then sz + (BOUNDARY - sz mod BOUNDARY) else sz);
                     addr2 = find_suitable_addr s sz
                 in if addr2 = NULL then (NULL, s)
                    else
                      let m1 = store64 (mem s) p addr2;
                          m2 = store64 m1 (p + 8) sz;
                          m3 = store64 m2 (p + 16) reserved;
                          m4 = pure64_memcpy m3 (unat addr2) (unat addr) (unat (load64 m3 (p + 8)))
                      in (addr2, sort_alloc_table (s\<lparr>mem := m4\<rparr>)))"
  by pat_completeness auto
termination
  by (relation "measure (\<lambda>x. case x of
          Inl (s, sz) \<Rightarrow> 2
        | Inr (Inl (s, alloc)) \<Rightarrow> (if alloc_table s = NULL then 4 else 1)
        | Inr (Inr (s, addr, sz)) \<Rightarrow> (if addr = NULL then 3 else 0))") auto

declare pure64_map_malloc.simps [simp del]
declare append_alloc.simps [simp del]
declare pure64_map_realloc.simps [simp del]

text \<open>\<^verbatim>\<open>pure64_map_free\<close>: the record found gets the largest address, sinks to the tail, and
  the count drops by one.\<close>

definition pure64_map_free :: "pure64_map \<Rightarrow> u64 \<Rightarrow> pure64_map" where
  "pure64_map_free s addr =
     (if addr = NULL then s
      else case find_alloc_entry s addr of
             None \<Rightarrow> s
           | Some p \<Rightarrow>
               let s1 = s\<lparr>mem := store64 (mem s) p 0xffffffffffffffff\<rparr>;
                   s2 = sort_alloc_table s1
               in s2\<lparr>alloc_count := alloc_count s2 - 1\<rparr>)"

section \<open>Initialization\<close>

text \<open>
  The \<^verbatim>\<open>while\<close> loop of \<^verbatim>\<open>pure64_map_init\<close>.  When it stops before the end of the firmware
  map it leaves the entry it chose and the local variables \<^verbatim>\<open>addr\<close> and \<^verbatim>\<open>size\<close>; these
  three are the result.  \<open>None\<close> is the end of the map.
\<close>

fun init_search :: "pure64_e820 list \<Rightarrow> (pure64_e820 \<times> u64 \<times> u64) option" where
  "init_search [] = None"
| "init_search (e # es) =
     (if \<not> e_usable e then init_search es
      else if e_addr e + e_size e < 0x60000 then init_search es
      else
        let (addr, sz) =
              (if e_addr e < 0x60000 then (0x60000, 0x60000 - e_addr e)
               else (e_addr e, e_size e))
        in if sz < word_of_nat (sizeof_alloc * 2) then init_search es
           else Some (e, addr, sz))"

text \<open>
  The part of \<^verbatim>\<open>pure64_map_init\<close> that builds the table (lines 202 to 276 of \<^verbatim>\<open>map.c\<close>): the
  search and the two initial records.  \<open>es\<close> is the firmware map found at \<^verbatim>\<open>0x6000\<close> and \<open>m\<close>
  the memory before the call.  The rest of the function (lines 278 to 286) calls
  \<^verbatim>\<open>pure64_map_malloc\<close> on the map built here, for \<^verbatim>\<open>sizeof(struct ahci_driver)\<close> bytes, and
  hands the block to the storage driver (\<^verbatim>\<open>ahci_init\<close>, the four stores into the driver object,
  \<^verbatim>\<open>ahci_load\<close>); the driver's structure and functions are declared in \<^verbatim>\<open>ahci.h\<close>, which is not
  under \<^verbatim>\<open>src/\<close>, and that part has no definition here.
\<close>

definition init_alloc_table :: "pure64_e820 list \<Rightarrow> memory \<Rightarrow> pure64_map" where
  "init_alloc_table es m =
     (case init_search es of
        None \<Rightarrow> \<lparr>e820 = es, alloc_table = NULL, alloc_count = 0, ahci_driver = NULL, mem = m\<rparr>
      | Some (e, addr, sz) \<Rightarrow>
          let t = unat addr;
              m1 = store64 m (alloc_slot t 0) 0x00;
              m2 = store64 m1 (alloc_slot t 0 + 8) 0x60000;
              m3 = store64 m2 (alloc_slot t 0 + 16) 0x60000;
              m4 = store64 m3 (alloc_slot t 1) addr;
              m5 = store64 m4 (alloc_slot t 1 + 8) (word_of_nat (sizeof_alloc * 2));
              m6 = store64 m5 (alloc_slot t 1 + 16) (word_of_nat (sizeof_alloc * 2))
          in \<lparr>e820 = es, alloc_table = addr, alloc_count = 2, ahci_driver = NULL, mem = m6\<rparr>)"

section \<open>Firmware maps used in the examples\<close>

text \<open>One usable region \<open>[0x60000, 0x1000000)\<close>, the synthetic map of the spec's scenarios.\<close>

definition fw_one_region :: "pure64_e820 list" where
  "fw_one_region = [\<lparr>e_addr = 0x60000, e_size = 0xFA0000, e_usable = True\<rparr>]"

text \<open>One usable region that holds the initial table and exactly one page after it.\<close>

definition fw_tight :: "pure64_e820 list" where
  "fw_tight = [\<lparr>e_addr = 0x60000, e_size = 0x1030, e_usable = True\<rparr>]"

text \<open>One usable region with room for the initial table of two records and no third.\<close>

definition fw_tiny :: "pure64_e820 list" where
  "fw_tiny = [\<lparr>e_addr = 0x60000, e_size = 0x40, e_usable = True\<rparr>]"

text \<open>Two usable regions: a small one that holds the table, and a megabyte at \<open>0x100000\<close>.\<close>

definition fw_two_regions :: "pure64_e820 list" where
  "fw_two_regions = [\<lparr>e_addr = 0x60000, e_size = 0x100, e_usable = True\<rparr>,
                     \<lparr>e_addr = 0x100000, e_size = 0x100000, e_usable = True\<rparr>]"

text \<open>
  The maps that \<^verbatim>\<open>pure64_map_init\<close> has built when it reaches its call of
  \<^verbatim>\<open>pure64_map_malloc\<close>, over memory that holds zeros; the first of them after one
  allocation of \<open>0x500\<close> bytes, and the second after one allocation of \<open>0x800\<close> bytes.
\<close>

definition boot_one_region :: pure64_map where
  "boot_one_region = init_alloc_table fw_one_region (\<lambda>_. 0)"

definition first_block :: pure64_map where
  "first_block = snd (pure64_map_malloc boot_one_region 0x500)"

definition boot_two_regions :: pure64_map where
  "boot_two_regions = init_alloc_table fw_two_regions (\<lambda>_. 0)"

definition one_block :: pure64_map where
  "one_block = snd (pure64_map_malloc boot_two_regions 0x800)"

text \<open>
  Three usable regions, the second and the third adjacent, the second not a whole number of
  pages long.
\<close>

definition fw_adjacent :: "pure64_e820 list" where
  "fw_adjacent = [\<lparr>e_addr = 0x60000, e_size = 0x100, e_usable = True\<rparr>,
                  \<lparr>e_addr = 0x100000, e_size = 0x2800, e_usable = True\<rparr>,
                  \<lparr>e_addr = 0x102800, e_size = 0x10000, e_usable = True\<rparr>]"

text \<open>One usable region that starts below \<open>0x60000\<close> and ends 16 bytes above it.\<close>

definition fw_straddle :: "pure64_e820 list" where
  "fw_straddle = [\<lparr>e_addr = 0x5FF00, e_size = 0x110, e_usable = True\<rparr>]"

text \<open>The region of \<open>fw_tight\<close> with one more byte.\<close>

definition fw_loose :: "pure64_e820 list" where
  "fw_loose = [\<lparr>e_addr = 0x60000, e_size = 0x1031, e_usable = True\<rparr>]"

text \<open>Over \<open>fw_adjacent\<close>: a block of \<open>0x800\<close> bytes, then a block of \<open>0x2000\<close> bytes.\<close>

definition two_blocks_adjacent :: pure64_map where
  "two_blocks_adjacent =
     snd (pure64_map_malloc (snd (pure64_map_malloc (init_alloc_table fw_adjacent (\<lambda>_. 0)) 0x800)) 0x2000)"

text \<open>
  Over \<open>fw_two_regions\<close>: a second block of \<open>0x800\<close> bytes is allocated, the first block is
  freed, and a block of \<open>0x800\<close> bytes is allocated again.
\<close>

definition reused_slot :: pure64_map where
  "reused_slot =
     snd (pure64_map_malloc
            (pure64_map_free (snd (pure64_map_malloc one_block 0x800)) 0x100000) 0x800)"

text \<open>
  \<open>one_block\<close> after its client has written the byte \<open>0x55\<close> at the last of the \<open>0x800\<close>
  bytes it asked for, and memory holds \<open>0xAA\<close> in the byte that follows.
\<close>

definition marked_block :: pure64_map where
  "marked_block = one_block\<lparr>mem := (mem one_block)(0x1007FF := 0x55, 0x100800 := 0xAA)\<rparr>"

text \<open>
  The spec's words for two records that are not disjoint: the intervals
  \<open>[addr, addr + reserved)\<close> meet.
\<close>

definition blocks_overlap :: "pure64_alloc \<Rightarrow> pure64_alloc \<Rightarrow> bool" where
  "blocks_overlap r1 r2 \<longleftrightarrow>
     unat (a_addr r1) < unat (a_addr r2) + unat (a_reserved r2) \<and>
     unat (a_addr r2) < unat (a_addr r1) + unat (a_reserved r1)"

text \<open>
  The spec's words for the room of a firmware entry above the bootstrap threshold: the end of
  the entry minus the larger of its base and \<open>0x60000\<close>.
\<close>

definition length_above_threshold :: "pure64_e820 \<Rightarrow> nat" where
  "length_above_threshold e = unat (e_addr e + e_size e) - unat (max (e_addr e) 0x60000)"

section \<open>Frame and failure lemmas\<close>

lemma realloc_nonnull_frame:
  assumes "addr \<noteq> NULL" and "pure64_map_realloc s addr sz = (p, s')"
  shows "alloc_table s' = alloc_table s \<and> alloc_count s' = alloc_count s \<and> e820 s' = e820 s
         \<and> ahci_driver s' = ahci_driver s"
  using assms
  by (auto simp: pure64_map_realloc.simps Let_def sort_alloc_table_def split: option.splits if_splits)

lemma realloc_nonnull_null:
  assumes "addr \<noteq> NULL" and "pure64_map_realloc s addr sz = (NULL, s')"
  shows "s' = s"
  using assms
  by (auto simp: pure64_map_realloc.simps Let_def split: option.splits if_splits)

lemma append_alloc_fail:
  assumes "alloc_table s \<noteq> NULL" and "append_alloc s al = (rc, s')" and "rc \<noteq> 0"
  shows "s' = s"
proof -
  obtain tbl s1 where r: "pure64_map_realloc s (alloc_table s)
      ((alloc_count s + 1) * word_of_nat sizeof_alloc) = (tbl, s1)"
    by (cases "pure64_map_realloc s (alloc_table s) ((alloc_count s + 1) * word_of_nat sizeof_alloc)")
  have "tbl = NULL" and "s' = s1"
    using assms(2,3) r by (auto simp: append_alloc.simps Let_def split: if_splits)
  then show ?thesis using realloc_nonnull_null[OF assms(1)] r by simp
qed

lemma append_alloc_ok:
  assumes "alloc_table s \<noteq> NULL" and "append_alloc s al = (0, s')"
  shows "alloc_count s' = alloc_count s + 1"
    and "read_alloc (mem s') (alloc_slot (unat (alloc_table s')) (unat (alloc_count s' - 1))) = al"
proof -
  obtain tbl s1 where r: "pure64_map_realloc s (alloc_table s)
      ((alloc_count s + 1) * word_of_nat sizeof_alloc) = (tbl, s1)"
    by (cases "pure64_map_realloc s (alloc_table s) ((alloc_count s + 1) * word_of_nat sizeof_alloc)")
  have fr: "alloc_count s1 = alloc_count s"
    using realloc_nonnull_frame[OF assms(1) r] by simp
  have nz: "tbl \<noteq> NULL"
    using assms(2) r by (auto simp: append_alloc.simps Let_def split: if_splits)
  have s': "s' = s1\<lparr>alloc_table := tbl, alloc_count := alloc_count s1 + 1,
                 mem := write_alloc (mem s1) (alloc_slot (unat tbl) (unat (alloc_count s1 + 1 - 1))) al\<rparr>"
    using assms(2) r nz by (simp add: append_alloc.simps Let_def)
  show "alloc_count s' = alloc_count s + 1" by (simp add: s' fr)
  show "read_alloc (mem s') (alloc_slot (unat (alloc_table s')) (unat (alloc_count s' - 1))) = al"
    by (simp add: s' read_alloc_write_alloc_same)
qed

lemma malloc_null:
  assumes "pure64_map_malloc s sz = (NULL, s')"
  shows "s' = s"
proof (cases "alloc_table s = NULL")
  case True
  then show ?thesis using assms by (simp add: pure64_map_malloc.simps)
next
  case False
  define sz' where "sz' = (if sz mod BOUNDARY \<noteq> 0 then sz + (BOUNDARY - sz mod BOUNDARY) else sz)"
  define al where "al = \<lparr>a_addr = find_suitable_addr s sz', a_size = sz, a_reserved = sz'\<rparr>"
  show ?thesis
  proof (cases "find_suitable_addr s sz' = NULL")
    case True
    then show ?thesis using assms False
      by (simp add: pure64_map_malloc.simps Let_def sz'_def)
  next
    case nz: False
    obtain rc s1 where a: "append_alloc s al = (rc, s1)"
      by (cases "append_alloc s al")
    have "rc \<noteq> 0 \<and> s' = s1"
      using assms False nz a
      by (auto simp: pure64_map_malloc.simps[of s sz] Let_def sz'_def al_def split: if_splits)
    then show ?thesis using append_alloc_fail[OF False a] by simp
  qed
qed

lemma malloc_ok:
  assumes "pure64_map_malloc s sz = (p, s')" and "p \<noteq> NULL"
  shows "alloc_table s \<noteq> NULL"
    and "alloc_count s' = alloc_count s + 1"
    and "read_alloc (mem s') (alloc_slot (unat (alloc_table s')) (unat (alloc_count s' - 1)))
         = \<lparr>a_addr = p, a_size = sz,
            a_reserved = (if sz mod BOUNDARY \<noteq> 0 then sz + (BOUNDARY - sz mod BOUNDARY) else sz)\<rparr>"
    and "p = find_suitable_addr s (if sz mod BOUNDARY \<noteq> 0 then sz + (BOUNDARY - sz mod BOUNDARY) else sz)"
proof -
  define sz' where "sz' = (if sz mod BOUNDARY \<noteq> 0 then sz + (BOUNDARY - sz mod BOUNDARY) else sz)"
  define al where "al = \<lparr>a_addr = find_suitable_addr s sz', a_size = sz, a_reserved = sz'\<rparr>"
  show t: "alloc_table s \<noteq> NULL"
    using assms by (auto simp: pure64_map_malloc.simps)
  have nz: "find_suitable_addr s sz' \<noteq> NULL"
    using assms t by (auto simp: pure64_map_malloc.simps[of s sz] Let_def sz'_def split: if_splits)
  obtain rc s1 where a: "append_alloc s al = (rc, s1)"
    by (cases "append_alloc s al")
  have r: "rc = 0 \<and> s' = s1 \<and> p = find_suitable_addr s sz'"
    using assms t nz a
    by (auto simp: pure64_map_malloc.simps[of s sz] Let_def sz'_def al_def split: if_splits)
  then have a': "append_alloc s al = (0, s')" using a by simp
  show "alloc_count s' = alloc_count s + 1"
    by (rule append_alloc_ok(1)[OF t a'])
  show "read_alloc (mem s') (alloc_slot (unat (alloc_table s')) (unat (alloc_count s' - 1)))
         = \<lparr>a_addr = p, a_size = sz,
            a_reserved = (if sz mod BOUNDARY \<noteq> 0 then sz + (BOUNDARY - sz mod BOUNDARY) else sz)\<rparr>"
    using append_alloc_ok(2)[OF t a'] r by (simp add: al_def sz'_def)
  show "p = find_suitable_addr s (if sz mod BOUNDARY \<noteq> 0 then sz + (BOUNDARY - sz mod BOUNDARY) else sz)"
    using r by (simp add: sz'_def)
qed

lemma realloc_null:
  assumes "pure64_map_realloc s addr sz = (NULL, s')"
  shows "s' = s"
proof (cases "addr = NULL")
  case True
  then have "pure64_map_malloc s sz = (NULL, s')"
    using assms by (simp add: pure64_map_realloc.simps)
  then show ?thesis by (rule malloc_null)
next
  case False
  then show ?thesis using assms by (rule realloc_nonnull_null)
qed

lemma free_noop:
  "addr = NULL \<or> find_alloc_entry s addr = None \<Longrightarrow> pure64_map_free s addr = s"
  by (auto simp: pure64_map_free_def)

section \<open>Reading records and copies\<close>

lemma load_le_zero: "load_le (\<lambda>_. 0) a k = 0"
  by (induction k arbitrary: a) auto

lemma load64_zero: "load64 (\<lambda>_. 0) a = 0"
  by (simp add: load64_def load_le_zero)

lemma load64_fun_upd_other:
  "b < a \<or> a + 8 \<le> b \<Longrightarrow> load64 (m(b := v)) a = load64 m a"
  by (rule load64_cong) auto

lemma load64_memcpy_outside:
  "a + 8 \<le> dst \<or> dst + n \<le> a \<Longrightarrow> load64 (pure64_memcpy m dst src n) a = load64 m a"
  by (rule load64_cong) (auto simp: memcpy_outside)

lemma load64_memcpy_inside:
  assumes "dst \<le> a" and "a + 8 \<le> dst + n" and "src + (a - dst) + 8 \<le> dst \<or> dst \<le> src"
  shows "load64 (pure64_memcpy m dst src n) a = load64 m (src + (a - dst))"
proof (rule load64_cong)
  fix j :: nat
  assume j: "j < 8"
  have "pure64_memcpy m dst src n (dst + (a - dst + j)) = m (src + (a - dst + j))"
    using assms j by (intro memcpy_inside) auto
  then show "pure64_memcpy m dst src n (a + j) = m (src + (a - dst) + j)"
    using assms(1) by (simp add: add.assoc)
qed

lemma memcpy_byte_inside:
  assumes "dst \<le> a" and "a < dst + n" and "src + (a - dst) < dst \<or> dst \<le> src"
  shows "pure64_memcpy m dst src n a = m (src + (a - dst))"
  using memcpy_inside[of "a - dst" n src dst m] assms by simp


lemma read_alloc_store_size:
  "read_alloc (store64 m (p + 8) v) p = (read_alloc m p)\<lparr>a_size := v\<rparr>"
  by (simp add: read_alloc_def load64_store64_same load64_store64_other)

lemma read_alloc_store64_other:
  "q + 24 \<le> a \<or> a + 8 \<le> q \<Longrightarrow> read_alloc (store64 m a v) q = read_alloc m q"
  by (auto simp: read_alloc_def load64_store64_other)


section \<open>The lookup\<close>

lemma find_alloc_entry_from_None:
  "find_alloc_entry_from m tbl n addr i = None \<longleftrightarrow>
     (\<forall>j. i \<le> j \<and> j < n \<longrightarrow> load64 m (alloc_slot tbl j) \<noteq> addr)"
proof (induction m tbl n addr i rule: find_alloc_entry_from.induct)
  case (1 m tbl n addr i)
  show ?case
  proof (cases "i < n")
    case False
    then show ?thesis by (auto simp: find_alloc_entry_from.simps[of m tbl n addr i])
  next
    case True
    show ?thesis
    proof (cases "load64 m (alloc_slot tbl i) = addr")
      case eq: True
      then show ?thesis using True
        by (auto simp: find_alloc_entry_from.simps[of m tbl n addr i])
    next
      case ne: False
      have "find_alloc_entry_from m tbl n addr i = find_alloc_entry_from m tbl n addr (i + 1)"
        using True ne by (simp add: find_alloc_entry_from.simps[of m tbl n addr i])
      also have "\<dots> = None \<longleftrightarrow> (\<forall>j. i + 1 \<le> j \<and> j < n \<longrightarrow> load64 m (alloc_slot tbl j) \<noteq> addr)"
        by (rule "1.IH"[OF True ne])
      also have "\<dots> \<longleftrightarrow> (\<forall>j. i \<le> j \<and> j < n \<longrightarrow> load64 m (alloc_slot tbl j) \<noteq> addr)"
      proof -
        have "i \<le> j \<longleftrightarrow> j = i \<or> i + 1 \<le> j" for j by arith
        then show ?thesis using ne by auto
      qed
      finally show ?thesis .
    qed
  qed
qed

lemma find_alloc_entry_None_iff:
  "find_alloc_entry s addr = None \<longleftrightarrow>
     (\<forall>j < unat (alloc_count s).
        a_addr (read_alloc (mem s) (alloc_slot (unat (alloc_table s)) j)) \<noteq> addr)"
  by (simp add: find_alloc_entry_def find_alloc_entry_from_None read_alloc_def)

lemma find_alloc_entry_from_first:
  assumes "i0 \<le> i" and "i < n" and "load64 m (alloc_slot tbl i) = addr"
    and "\<forall>j. i0 \<le> j \<and> j < i \<longrightarrow> load64 m (alloc_slot tbl j) \<noteq> addr"
  shows "find_alloc_entry_from m tbl n addr i0 = Some (alloc_slot tbl i)"
  using assms
proof (induction m tbl n addr i0 rule: find_alloc_entry_from.induct)
  case (1 m tbl n addr i0)
  have lt: "i0 < n" using "1.prems" by simp
  show ?case
  proof (cases "i0 = i")
    case True
    then show ?thesis using "1.prems" lt
      by (subst find_alloc_entry_from.simps) simp
  next
    case False
    then have ne: "load64 m (alloc_slot tbl i0) \<noteq> addr" and le: "i0 + 1 \<le> i"
      using "1.prems" by auto
    have "find_alloc_entry_from m tbl n addr (i0 + 1) = Some (alloc_slot tbl i)"
      using "1.prems" le by (intro "1.IH"[OF lt ne]) auto
    then show ?thesis using lt ne
      by (subst find_alloc_entry_from.simps) simp
  qed
qed

lemma find_alloc_entry_first:
  assumes "i < unat (alloc_count s)"
    and "a_addr (read_alloc (mem s) (alloc_slot (unat (alloc_table s)) i)) = addr"
    and "\<forall>j<i. a_addr (read_alloc (mem s) (alloc_slot (unat (alloc_table s)) j)) \<noteq> addr"
  shows "find_alloc_entry s addr = Some (alloc_slot (unat (alloc_table s)) i)"
  unfolding find_alloc_entry_def
  using assms by (intro find_alloc_entry_from_first) (auto simp: read_alloc_def)


section \<open>Page rounding\<close>


lemma round_wraps:
  fixes sz :: u64
  assumes "0xFFFFFFFFFFFFF000 < sz"
  shows "sz mod BOUNDARY \<noteq> 0"
    and "unat sz + unat (BOUNDARY - sz mod BOUNDARY) = 2 ^ 64"
    and "sz + (BOUNDARY - sz mod BOUNDARY) = 0"
proof -
  have lo: "18446744073709547520 < unat sz"
    using assms by (simp add: word_less_nat_alt)
  have hi: "unat sz < 18446744073709551616"
    using unsigned_less[of sz, where ?'a = nat] by simp
  obtain d where u: "unat sz = d + 4503599627370495 * 4096" and dd: "0 < d" "d < 4096"
  proof
    show "unat sz = (unat sz - 18446744073709547520) + 4503599627370495 * 4096"
      using lo by simp
    show "0 < unat sz - 18446744073709547520" using lo by simp
    show "unat sz - 18446744073709547520 < 4096" using hi by simp
  qed
  have e: "(d + q * 4096) mod 4096 = d" for q :: nat
    using dd by simp
  have k: "unat sz mod 4096 = d"
    unfolding u by (rule e)
  have m: "unat (sz mod 0x1000) = d"
    using k by (simp add: unat_mod)
  show nz: "sz mod BOUNDARY \<noteq> 0"
  proof
    assume "sz mod BOUNDARY = 0"
    then have "unat (sz mod 0x1000) = 0" by (simp add: BOUNDARY_def)
    then show False using m dd by simp
  qed
  have le: "sz mod 0x1000 \<le> 0x1000"
    using m dd by (simp add: word_le_nat_alt)
  have d: "unat (0x1000 - sz mod 0x1000) = 4096 - d"
    using unat_sub[OF le] m by simp
  have s': "unat sz + unat (0x1000 - sz mod 0x1000) = 18446744073709551616"
    unfolding d u using dd by simp
  show s: "unat sz + unat (BOUNDARY - sz mod BOUNDARY) = 2 ^ 64"
    using s' by (simp add: BOUNDARY_def)
  have "unat (sz + (BOUNDARY - sz mod BOUNDARY))
          = (unat sz + unat (BOUNDARY - sz mod BOUNDARY)) mod 2 ^ 64"
    by (simp add: unat_word_ariths)
  also have "\<dots> = 0" unfolding s by simp
  finally show "sz + (BOUNDARY - sz mod BOUNDARY) = 0"
    by (simp add: unat_eq_0)
qed

section \<open>The sort keeps the records\<close>







section \<open>The initial table\<close>



section \<open>Evaluation of the examples\<close>

text \<open>
  The rewrite rules that run the operations on a concrete map: the definitions, and the
  lemmas that read a value back through the stores and copies made since.
\<close>

lemmas eval_simps =
  init_alloc_table_def alloc_slot_def sizeof_alloc_def Let_def BOUNDARY_def
  find_suitable_addr_def scan_alloc_table.simps
  find_alloc_entry_def find_alloc_entry_from.simps
  pure64_map_malloc.simps append_alloc.simps pure64_map_realloc.simps
  sort_alloc_table_def sort_table_mem.simps sort_pass.simps
  read_alloc_def write_alloc_def
  load64_zero load64_store64_same load64_store64_other
  load64_memcpy_outside load64_memcpy_inside

lemmas scenario_defs =
  fw_one_region_def fw_two_regions_def boot_one_region_def boot_two_regions_def one_block_def
  first_block_def

lemma null_result: "fst r = NULL \<Longrightarrow> r = (NULL, snd r)"
  by (cases r) simp

lemma first_malloc_overlaps_table:
  "fst (pure64_map_malloc boot_one_region 0x500) = 0x60030 \<and>
   alloc_table (snd (pure64_map_malloc boot_one_region 0x500)) = 0x60030 \<and>
   alloc_count (snd (pure64_map_malloc boot_one_region 0x500)) = 3 \<and>
   read_alloc (mem (snd (pure64_map_malloc boot_one_region 0x500))) (alloc_slot 0x60030 1)
     = \<lparr>a_addr = 0x60030, a_size = 72, a_reserved = 0x1000\<rparr> \<and>
   read_alloc (mem (snd (pure64_map_malloc boot_one_region 0x500))) (alloc_slot 0x60030 2)
     = \<lparr>a_addr = 0x60030, a_size = 0x500, a_reserved = 0x1000\<rparr> \<and>
   blocks_overlap
     (read_alloc (mem (snd (pure64_map_malloc boot_one_region 0x500))) (alloc_slot 0x60030 1))
     (read_alloc (mem (snd (pure64_map_malloc boot_one_region 0x500))) (alloc_slot 0x60030 2))"
  by (simp add: scenario_defs eval_simps blocks_overlap_def)

lemma realloc_overlaps_next_block:
  "fst (pure64_map_realloc two_blocks_adjacent 0x100000 0x17FF) = 0x101000 \<and>
   alloc_table (snd (pure64_map_realloc two_blocks_adjacent 0x100000 0x17FF)) = 0x60030 \<and>
   alloc_count (snd (pure64_map_realloc two_blocks_adjacent 0x100000 0x17FF)) = 4 \<and>
   read_alloc (mem (snd (pure64_map_realloc two_blocks_adjacent 0x100000 0x17FF))) (alloc_slot 0x60030 2)
     = \<lparr>a_addr = 0x101000, a_size = 0x17FF, a_reserved = 0x2000\<rparr> \<and>
   read_alloc (mem (snd (pure64_map_realloc two_blocks_adjacent 0x100000 0x17FF))) (alloc_slot 0x60030 3)
     = \<lparr>a_addr = 0x102800, a_size = 0x2000, a_reserved = 0x2000\<rparr> \<and>
   blocks_overlap
     (read_alloc (mem (snd (pure64_map_realloc two_blocks_adjacent 0x100000 0x17FF))) (alloc_slot 0x60030 2))
     (read_alloc (mem (snd (pure64_map_realloc two_blocks_adjacent 0x100000 0x17FF))) (alloc_slot 0x60030 3))"
  by (simp add: two_blocks_adjacent_def fw_adjacent_def eval_simps blocks_overlap_def)

lemma huge_request_succeeds:
  assumes "0xFFFFFFFFFFFFF000 < sz"
  shows "fst (pure64_map_malloc boot_one_region sz) = 0x60000"
proof -
  have a: "sz mod 0x1000 \<noteq> 0" and b: "sz + (0x1000 - sz mod 0x1000) = 0"
    using round_wraps(1,3)[OF assms] by (simp_all add: BOUNDARY_def)
  show ?thesis
    by (simp add: scenario_defs eval_simps a b)
qed

section \<open>Failure atomicity\<close>

text \<open>
  C9.  Whenever \<^verbatim>\<open>pure64_map_malloc\<close> or \<^verbatim>\<open>pure64_map_realloc\<close> returns a null pointer, the
  map after the call is the map before it: the table pointer, the count and the whole memory,
  hence every record.  \<^verbatim>\<open>pure64_map_free\<close> is a total function (its sort loop terminates), and
  with a null address or an address that is the \<open>addr\<close> of no live record it returns the map
  unchanged.
\<close>

theorem failure_leaves_table_unchanged:
  "(pure64_map_malloc s sz = (NULL, s1) \<longrightarrow> s1 = s) \<and>
   (pure64_map_realloc s addr sz = (NULL, s2) \<longrightarrow> s2 = s) \<and>
   (addr = NULL \<or>
    (\<forall>j < unat (alloc_count s).
        a_addr (read_alloc (mem s) (alloc_slot (unat (alloc_table s)) j)) \<noteq> addr)
    \<longrightarrow> pure64_map_free s addr = s)"
  using malloc_null[of s sz s1] realloc_null[of s addr sz s2] free_noop[of addr s]
  by (simp add: find_alloc_entry_None_iff)


text \<open>
  The theorem at concrete inputs: an uninitialized table, a request that no region can host, a
  request for which the placement succeeds and the growth of the table fails, an unknown
  pointer given to realloc and to free, and a null pointer given to free.
\<close>

theorem failure_leaves_table_unchanged_witness:
  "pure64_map_malloc (init_alloc_table [] (\<lambda>_. 0)) 0x500 = (NULL, init_alloc_table [] (\<lambda>_. 0)) \<and>
   pure64_map_malloc (init_alloc_table fw_tight (\<lambda>_. 0)) 0x2000
     = (NULL, init_alloc_table fw_tight (\<lambda>_. 0)) \<and>
   find_suitable_addr (init_alloc_table fw_tiny (\<lambda>_. 0)) 0 \<noteq> NULL \<and>
   pure64_map_malloc (init_alloc_table fw_tiny (\<lambda>_. 0)) 0
     = (NULL, init_alloc_table fw_tiny (\<lambda>_. 0)) \<and>
   pure64_map_realloc (init_alloc_table fw_one_region (\<lambda>_. 0)) 0x1234 16
     = (NULL, init_alloc_table fw_one_region (\<lambda>_. 0)) \<and>
   pure64_map_free (init_alloc_table fw_one_region (\<lambda>_. 0)) 0x1234
     = init_alloc_table fw_one_region (\<lambda>_. 0) \<and>
   pure64_map_free (init_alloc_table fw_one_region (\<lambda>_. 0)) NULL
     = init_alloc_table fw_one_region (\<lambda>_. 0)"
proof -
  let ?u = "init_alloc_table [] (\<lambda>_. 0)"
  let ?t = "init_alloc_table fw_tight (\<lambda>_. 0)"
  let ?y = "init_alloc_table fw_tiny (\<lambda>_. 0)"
  let ?s = "init_alloc_table fw_one_region (\<lambda>_. 0)"
  have a: "pure64_map_malloc ?u 0x500 = (NULL, snd (pure64_map_malloc ?u 0x500))"
    by (rule null_result) (simp add: eval_simps)
  have b: "pure64_map_malloc ?t 0x2000 = (NULL, snd (pure64_map_malloc ?t 0x2000))"
    by (rule null_result) (simp add: fw_tight_def eval_simps)
  have c: "pure64_map_malloc ?y 0 = (NULL, snd (pure64_map_malloc ?y 0))"
    by (rule null_result) (simp add: fw_tiny_def eval_simps)
  have c': "find_suitable_addr ?y 0 \<noteq> NULL"
    by (simp add: fw_tiny_def eval_simps)
  have d: "pure64_map_realloc ?s 0x1234 16 = (NULL, snd (pure64_map_realloc ?s 0x1234 16))"
    by (rule null_result) (simp add: fw_one_region_def eval_simps)
  have e: "\<forall>j < unat (alloc_count ?s).
        a_addr (read_alloc (mem ?s) (alloc_slot (unat (alloc_table ?s)) j)) \<noteq> 0x1234"
    unfolding find_alloc_entry_None_iff[symmetric]
    by (simp add: fw_one_region_def eval_simps)
  show ?thesis
    using a b c c' d e
      failure_leaves_table_unchanged[of ?u "0x500" "snd (pure64_map_malloc ?u 0x500)"]
      failure_leaves_table_unchanged[of ?t "0x2000" "snd (pure64_map_malloc ?t 0x2000)"]
      failure_leaves_table_unchanged[of ?y 0 "snd (pure64_map_malloc ?y 0)"]
      failure_leaves_table_unchanged[of ?s 16 _ "0x1234" "snd (pure64_map_realloc ?s 0x1234 16)"]
      failure_leaves_table_unchanged[of ?s _ _ NULL]
    by simp
qed


section \<open>Page rounding at the top of the address space\<close>

text \<open>
  C10.  A request of more than \<open>2 ^ 64 - 4096\<close> bytes is never a multiple of 4096, and the
  rounding step of \<^verbatim>\<open>pure64_map_malloc\<close> adds to it exactly what is missing to \<open>2 ^ 64\<close>: the
  sum wraps to zero.  There is a map on which malloc returns a non-null address for the
  request, and whenever it does, the record it appended has that address, the whole request
  in \<open>size\<close> and \<open>reserved = 0\<close>, which is below the request.
\<close>

theorem malloc_rounding_wraps:
  assumes "0xFFFFFFFFFFFFF000 < sz"
  shows "sz mod BOUNDARY \<noteq> 0 \<and>
         unat sz + unat (BOUNDARY - sz mod BOUNDARY) = 2 ^ 64 \<and>
         (\<exists>s0. fst (pure64_map_malloc s0 sz) \<noteq> NULL) \<and>
         (pure64_map_malloc s sz = (p, s') \<and> p \<noteq> NULL \<longrightarrow>
            alloc_count s' = alloc_count s + 1 \<and>
            read_alloc (mem s') (alloc_slot (unat (alloc_table s')) (unat (alloc_count s' - 1)))
              = \<lparr>a_addr = p, a_size = sz, a_reserved = 0\<rparr> \<and>
            a_reserved (read_alloc (mem s')
                (alloc_slot (unat (alloc_table s')) (unat (alloc_count s' - 1)))) < sz)"
proof (intro conjI impI)
  note w = round_wraps[OF assms]
  show "sz mod BOUNDARY \<noteq> 0" by (rule w(1))
  show "unat sz + unat (BOUNDARY - sz mod BOUNDARY) = 2 ^ 64" by (rule w(2))
  have "fst (pure64_map_malloc boot_one_region sz) \<noteq> NULL"
    using huge_request_succeeds[OF assms] by simp
  then show "\<exists>s0. fst (pure64_map_malloc s0 sz) \<noteq> NULL" ..
  assume h: "pure64_map_malloc s sz = (p, s') \<and> p \<noteq> NULL"
  then have m: "pure64_map_malloc s sz = (p, s')" and nz: "p \<noteq> NULL" by simp_all
  show "alloc_count s' = alloc_count s + 1"
    by (rule malloc_ok(2)[OF m nz])
  show r: "read_alloc (mem s') (alloc_slot (unat (alloc_table s')) (unat (alloc_count s' - 1)))
           = \<lparr>a_addr = p, a_size = sz, a_reserved = 0\<rparr>"
    using malloc_ok(3)[OF m nz] w(1,3) by simp
  have "0 < sz" using assms by (simp add: word_less_nat_alt)
  then show "a_reserved (read_alloc (mem s')
                (alloc_slot (unat (alloc_table s')) (unat (alloc_count s' - 1)))) < sz"
    by (simp add: r)
qed

text \<open>
  The theorem at \<open>2 ^ 64 - 1\<close> bytes, on the table that initialization builds in
  \<open>[0x60000, 0x1000000)\<close>: the call returns \<open>0x60000\<close>.
\<close>

theorem malloc_rounding_wraps_witness:
  "(0xFFFFFFFFFFFFF000 :: u64) < 0xFFFFFFFFFFFFFFFF \<and>
   fst (pure64_map_malloc boot_one_region 0xFFFFFFFFFFFFFFFF) = 0x60000 \<and>
   alloc_count (snd (pure64_map_malloc boot_one_region 0xFFFFFFFFFFFFFFFF)) = 3 \<and>
   read_alloc (mem (snd (pure64_map_malloc boot_one_region 0xFFFFFFFFFFFFFFFF)))
       (alloc_slot (unat (alloc_table (snd (pure64_map_malloc boot_one_region 0xFFFFFFFFFFFFFFFF))))
          (unat (alloc_count (snd (pure64_map_malloc boot_one_region 0xFFFFFFFFFFFFFFFF)) - 1)))
     = \<lparr>a_addr = 0x60000, a_size = 0xFFFFFFFFFFFFFFFF, a_reserved = 0\<rparr>"
proof -
  let ?r = "pure64_map_malloc boot_one_region 0xFFFFFFFFFFFFFFFF"
  have h: "(0xFFFFFFFFFFFFF000 :: u64) < 0xFFFFFFFFFFFFFFFF" by simp
  have f: "fst ?r = 0x60000"
    by (simp add: scenario_defs eval_simps)
  have c: "alloc_count boot_one_region = 2"
    by (simp add: scenario_defs eval_simps)
  have "?r = (fst ?r, snd ?r)" by (rule prod.collapse[symmetric])
  moreover have "fst ?r \<noteq> NULL" by (simp add: f)
  ultimately have e: "?r = (fst ?r, snd ?r) \<and> fst ?r \<noteq> NULL" by (rule conjI)
  note th = malloc_rounding_wraps[OF h, where s = boot_one_region and p = "fst ?r" and s' = "snd ?r"]
  have n: "alloc_count (snd ?r) = 3"
    using th e c by simp
  have "read_alloc (mem (snd ?r)) (alloc_slot (unat (alloc_table (snd ?r))) (unat (alloc_count (snd ?r) - 1)))
          = \<lparr>a_addr = fst ?r, a_size = 0xFFFFFFFFFFFFFFFF, a_reserved = 0\<rparr>"
    using th e by blast
  then show ?thesis
    using h f n by simp
qed

section \<open>Requests of zero bytes\<close>

text \<open>
  The spec has a request of zero bytes treated as a request for one page.  The source has no
  such case: zero is a multiple of the boundary, so it is not rounded, and on the table that
  initialization builds in \<open>[0x60000, 0x1000000)\<close> the call succeeds and appends a record
  whose \<open>reserved\<close> is \<open>0\<close>, not \<open>4096\<close>.
\<close>

theorem malloc_zero_size_counterexample:
  "fst (pure64_map_malloc (init_alloc_table fw_one_region (\<lambda>_. 0)) 0) = 0x60000 \<and>
   alloc_count (snd (pure64_map_malloc (init_alloc_table fw_one_region (\<lambda>_. 0)) 0)) = 3 \<and>
   alloc_table (snd (pure64_map_malloc (init_alloc_table fw_one_region (\<lambda>_. 0)) 0)) = 0x60030 \<and>
   a_reserved (read_alloc
       (mem (snd (pure64_map_malloc (init_alloc_table fw_one_region (\<lambda>_. 0)) 0)))
       (alloc_slot 0x60030 2)) = 0 \<and>
   a_reserved (read_alloc
       (mem (snd (pure64_map_malloc (init_alloc_table fw_one_region (\<lambda>_. 0)) 0)))
       (alloc_slot 0x60030 2)) \<noteq> 0x1000"
  by (simp add: fw_one_region_def eval_simps)

text \<open>
  C7, amended.  A request of zero bytes is passed on as it is: the placement is asked for zero
  bytes, and when \<^verbatim>\<open>pure64_map_malloc\<close> returns a non-null address the record it appended has
  that address, \<open>size = 0\<close> and \<open>reserved = 0\<close>.
\<close>

theorem malloc_zero_size:
  assumes "pure64_map_malloc s 0 = (p, s')" and "p \<noteq> NULL"
  shows "p = find_suitable_addr s 0 \<and>
         alloc_count s' = alloc_count s + 1 \<and>
         read_alloc (mem s') (alloc_slot (unat (alloc_table s')) (unat (alloc_count s' - 1)))
           = \<lparr>a_addr = p, a_size = 0, a_reserved = 0\<rparr>"
  using malloc_ok(2-4)[OF assms] by simp

text \<open>The amended statement on the table of the counterexample.\<close>

theorem malloc_zero_size_witness:
  "fst (pure64_map_malloc (init_alloc_table fw_one_region (\<lambda>_. 0)) 0) = 0x60000 \<and>
   find_suitable_addr (init_alloc_table fw_one_region (\<lambda>_. 0)) 0 = 0x60000 \<and>
   read_alloc (mem (snd (pure64_map_malloc (init_alloc_table fw_one_region (\<lambda>_. 0)) 0)))
      (alloc_slot
         (unat (alloc_table (snd (pure64_map_malloc (init_alloc_table fw_one_region (\<lambda>_. 0)) 0))))
         (unat (alloc_count (snd (pure64_map_malloc (init_alloc_table fw_one_region (\<lambda>_. 0)) 0)) - 1)))
     = \<lparr>a_addr = 0x60000, a_size = 0, a_reserved = 0\<rparr>"
proof -
  let ?r = "pure64_map_malloc (init_alloc_table fw_one_region (\<lambda>_. 0)) 0"
  have f: "fst ?r = 0x60000"
    by (simp add: fw_one_region_def eval_simps)
  have e: "?r = (fst ?r, snd ?r)" by simp
  have nz: "fst ?r \<noteq> NULL" using f by simp
  have g: "fst ?r = find_suitable_addr (init_alloc_table fw_one_region (\<lambda>_. 0)) 0"
    using malloc_zero_size[OF e nz] by blast
  have t: "read_alloc (mem (snd ?r))
             (alloc_slot (unat (alloc_table (snd ?r))) (unat (alloc_count (snd ?r) - 1)))
           = \<lparr>a_addr = fst ?r, a_size = 0, a_reserved = 0\<rparr>"
    using malloc_zero_size[OF e nz] by blast
  show ?thesis
    using f g t by simp
qed

section \<open>Reallocation within the reserved bytes\<close>

text \<open>
  What \<^verbatim>\<open>pure64_map_realloc\<close> does for the record that its lookup finds, the first live record
  whose \<open>addr\<close> is the non-null address passed in, when that record has enough reserved
  bytes: it returns the address, appends nothing, writes the requested size into the \<open>size\<close>
  field of that record, and leaves every other record and every other byte as they were.
\<close>

lemma realloc_in_place_found_record:
  assumes "addr \<noteq> NULL"
    and "i < unat (alloc_count s)"
    and "a_addr (read_alloc (mem s) (alloc_slot (unat (alloc_table s)) i)) = addr"
    and "\<forall>j<i. a_addr (read_alloc (mem s) (alloc_slot (unat (alloc_table s)) j)) \<noteq> addr"
    and "sz \<le> a_reserved (read_alloc (mem s) (alloc_slot (unat (alloc_table s)) i))"
    and "pure64_map_realloc s addr sz = (p, s')"
  shows "p = addr \<and> alloc_table s' = alloc_table s \<and> alloc_count s' = alloc_count s \<and>
         read_alloc (mem s') (alloc_slot (unat (alloc_table s)) i)
           = (read_alloc (mem s) (alloc_slot (unat (alloc_table s)) i))\<lparr>a_size := sz\<rparr> \<and>
         (\<forall>j. j \<noteq> i \<longrightarrow>
              read_alloc (mem s') (alloc_slot (unat (alloc_table s)) j)
                = read_alloc (mem s) (alloc_slot (unat (alloc_table s)) j)) \<and>
         (\<forall>b. b < alloc_slot (unat (alloc_table s)) i + 8 \<or>
               alloc_slot (unat (alloc_table s)) i + 16 \<le> b \<longrightarrow> mem s' b = mem s b)"
proof -
  let ?p = "alloc_slot (unat (alloc_table s)) i"
  have f: "find_alloc_entry s addr = Some ?p"
    by (rule find_alloc_entry_first[OF assms(2-4)])
  have r: "sz \<le> load64 (mem s) (?p + 16)"
    using assms(5) by (simp add: read_alloc_def)
  have "pure64_map_realloc s addr sz = (addr, s\<lparr>mem := store64 (mem s) (?p + 8) sz\<rparr>)"
    using assms(1) f r by (simp add: pure64_map_realloc.simps)
  then have p: "p = addr" and s': "s' = s\<lparr>mem := store64 (mem s) (?p + 8) sz\<rparr>"
    using assms(6) by simp_all
  have other: "read_alloc (mem s') (alloc_slot (unat (alloc_table s)) j)
                = read_alloc (mem s) (alloc_slot (unat (alloc_table s)) j)" if "j \<noteq> i" for j
  proof -
    have "alloc_slot (unat (alloc_table s)) j + 24 \<le> ?p + 8 \<or>
          ?p + 8 + 8 \<le> alloc_slot (unat (alloc_table s)) j"
      using that by (cases "j < i") (auto simp: alloc_slot_def sizeof_alloc_def)
    then show ?thesis by (simp add: s' read_alloc_store64_other)
  qed
  have bytes: "mem s' b = mem s b" if "b < ?p + 8 \<or> ?p + 16 \<le> b" for b
    using that by (auto simp: s' store64_outside)
  show ?thesis
    using p other bytes by (simp add: s' read_alloc_store_size)
qed

text \<open>
  C8.  The spec asks this of every live record with enough reserved bytes.  The lookup goes by
  address, and the table can hold two live records with one address: the first allocation on
  an initialized table puts the block and the relocated table both at \<open>0x60030\<close> (see C1).
  In \<open>first_block\<close> record 1 is the table's, \<open>{0x60030, 72, 0x1000}\<close>, and record 2 is the
  block's, \<open>{0x60030, 0x500, 0x1000}\<close>.  The client's block has \<open>0x1000\<close> bytes reserved, so
  its reallocation to \<open>0x900\<close> bytes fits in place.  The call returns \<open>0x60030\<close>, and it has
  written \<open>0x900\<close> into the \<open>size\<close> of record 1, the table's own record; the record of the
  block still has \<open>size = 0x500\<close>.
\<close>

theorem realloc_in_slack_updates_table_record:
  "alloc_table first_block = 0x60030 \<and>
   alloc_count first_block = 3 \<and>
   read_alloc (mem first_block) (alloc_slot 0x60030 1)
     = \<lparr>a_addr = 0x60030, a_size = 72, a_reserved = 0x1000\<rparr> \<and>
   read_alloc (mem first_block) (alloc_slot 0x60030 2)
     = \<lparr>a_addr = 0x60030, a_size = 0x500, a_reserved = 0x1000\<rparr> \<and>
   fst (pure64_map_realloc first_block 0x60030 0x900) = 0x60030 \<and>
   alloc_table (snd (pure64_map_realloc first_block 0x60030 0x900)) = 0x60030 \<and>
   alloc_count (snd (pure64_map_realloc first_block 0x60030 0x900)) = 3 \<and>
   read_alloc (mem (snd (pure64_map_realloc first_block 0x60030 0x900))) (alloc_slot 0x60030 1)
     = \<lparr>a_addr = 0x60030, a_size = 0x900, a_reserved = 0x1000\<rparr> \<and>
   read_alloc (mem (snd (pure64_map_realloc first_block 0x60030 0x900))) (alloc_slot 0x60030 2)
     = \<lparr>a_addr = 0x60030, a_size = 0x500, a_reserved = 0x1000\<rparr>"
  by (simp add: scenario_defs eval_simps)

section \<open>Alignment\<close>




section \<open>Overlap of live records\<close>

text \<open>
  C1.  The spec asks that the intervals \<open>[addr, addr + reserved)\<close> of two live records never
  meet.  The code does not keep them apart.

  First, \<^verbatim>\<open>pure64_map_malloc\<close> chooses the address of the new block, and only then
  \<^verbatim>\<open>append_alloc\<close> grows the table through \<^verbatim>\<open>pure64_map_realloc\<close>, which runs the placement
  again on a table that does not hold the new block yet.  On the map that initialization
  builds in \<open>[0x60000, 0x1000000)\<close> the first allocation (the one \<^verbatim>\<open>pure64_map_init\<close> itself
  makes) returns \<open>0x60030\<close>, the table moves to \<open>0x60030\<close>, and the two records are
  \<open>{0x60030, 72, 0x1000}\<close> and \<open>{0x60030, 0x500, 0x1000}\<close>.

  Second, \<^verbatim>\<open>pure64_map_realloc\<close> places a relocated block with the size that was asked for and
  then reserves the size rounded up.  Over \<open>fw_adjacent\<close>, with blocks at \<open>0x100000\<close> and
  \<open>0x102800\<close>, the reallocation of the first to \<open>0x17FF\<close> bytes puts it at \<open>0x101000\<close> with
  \<open>0x2000\<close> bytes reserved, over the first \<open>0x800\<close> bytes of the block at \<open>0x102800\<close>.
\<close>

theorem live_records_overlap:
  "(fst (pure64_map_malloc boot_one_region 0x500) = 0x60030 \<and>
   alloc_table (snd (pure64_map_malloc boot_one_region 0x500)) = 0x60030 \<and>
   alloc_count (snd (pure64_map_malloc boot_one_region 0x500)) = 3 \<and>
   read_alloc (mem (snd (pure64_map_malloc boot_one_region 0x500))) (alloc_slot 0x60030 1)
     = \<lparr>a_addr = 0x60030, a_size = 72, a_reserved = 0x1000\<rparr> \<and>
   read_alloc (mem (snd (pure64_map_malloc boot_one_region 0x500))) (alloc_slot 0x60030 2)
     = \<lparr>a_addr = 0x60030, a_size = 0x500, a_reserved = 0x1000\<rparr> \<and>
   blocks_overlap
     (read_alloc (mem (snd (pure64_map_malloc boot_one_region 0x500))) (alloc_slot 0x60030 1))
     (read_alloc (mem (snd (pure64_map_malloc boot_one_region 0x500))) (alloc_slot 0x60030 2))) \<and>
   (fst (pure64_map_realloc two_blocks_adjacent 0x100000 0x17FF) = 0x101000 \<and>
   alloc_table (snd (pure64_map_realloc two_blocks_adjacent 0x100000 0x17FF)) = 0x60030 \<and>
   alloc_count (snd (pure64_map_realloc two_blocks_adjacent 0x100000 0x17FF)) = 4 \<and>
   read_alloc (mem (snd (pure64_map_realloc two_blocks_adjacent 0x100000 0x17FF))) (alloc_slot 0x60030 2)
     = \<lparr>a_addr = 0x101000, a_size = 0x17FF, a_reserved = 0x2000\<rparr> \<and>
   read_alloc (mem (snd (pure64_map_realloc two_blocks_adjacent 0x100000 0x17FF))) (alloc_slot 0x60030 3)
     = \<lparr>a_addr = 0x102800, a_size = 0x2000, a_reserved = 0x2000\<rparr> \<and>
   blocks_overlap
     (read_alloc (mem (snd (pure64_map_realloc two_blocks_adjacent 0x100000 0x17FF))) (alloc_slot 0x60030 2))
     (read_alloc (mem (snd (pure64_map_realloc two_blocks_adjacent 0x100000 0x17FF))) (alloc_slot 0x60030 3)))"
  by (rule conjI[OF first_malloc_overlaps_table realloc_overlaps_next_block])

section \<open>Order of the table\<close>

text \<open>
  C3.  The spec asks that the table be ascending by \<open>addr\<close> after every public operation, and
  in particular after \<^verbatim>\<open>pure64_map_malloc\<close> has appended a record.  \<^verbatim>\<open>pure64_map_realloc\<close> and
  \<^verbatim>\<open>pure64_map_free\<close> call \<^verbatim>\<open>sort_alloc_table\<close> after they change an \<open>addr\<close>;
  \<^verbatim>\<open>pure64_map_malloc\<close> and \<^verbatim>\<open>append_alloc\<close> do not.  Over \<open>fw_two_regions\<close>, after two
  allocations of \<open>0x800\<close> bytes (at \<open>0x100000\<close> and \<open>0x101000\<close>), the release of the first and
  one more allocation of \<open>0x800\<close> bytes, the new block is at \<open>0x100000\<close> and its record is
  the last of the table, after the record of the block at \<open>0x101000\<close>.  The placement
  reads the table in one pass, from the first record to the last: on this table, asked for
  one more page, it returns \<open>0x101000\<close>, the address of a live block.
\<close>

theorem malloc_leaves_table_unsorted:
  "fst (pure64_map_malloc
          (pure64_map_free (snd (pure64_map_malloc one_block 0x800)) 0x100000) 0x800) = 0x100000 \<and>
   alloc_table reused_slot = 0x60030 \<and>
   alloc_count reused_slot = 4 \<and>
   a_addr (read_alloc (mem reused_slot) (alloc_slot 0x60030 0)) = 0 \<and>
   a_addr (read_alloc (mem reused_slot) (alloc_slot 0x60030 1)) = 0x60030 \<and>
   a_addr (read_alloc (mem reused_slot) (alloc_slot 0x60030 2)) = 0x101000 \<and>
   a_addr (read_alloc (mem reused_slot) (alloc_slot 0x60030 3)) = 0x100000 \<and>
   \<not> a_addr (read_alloc (mem reused_slot) (alloc_slot 0x60030 2))
       < a_addr (read_alloc (mem reused_slot) (alloc_slot 0x60030 3)) \<and>
   find_suitable_addr reused_slot 0x1000 = 0x101000"
  by (simp add: reused_slot_def scenario_defs eval_simps pure64_map_free_def)

section \<open>Placement of the initial table\<close>

text \<open>
  C4.  The spec asks that the entry chosen for the initial table have room for two records
  above \<open>0x60000\<close>.  For an entry that starts below \<open>0x60000\<close> the source tests
  \<^verbatim>\<open>size = 0x60000 - addr\<close>, the length of the part below the threshold, against
  \<^verbatim>\<open>2 * sizeof(struct pure64_alloc)\<close>.  The entry \<open>[0x5FF00, 0x60010)\<close> has 16 bytes above the
  threshold, fewer than the 48 of two records; the search chooses it, with \<open>size = 0x100\<close>,
  and the table of two records is put at \<open>0x60000\<close>.
\<close>

theorem init_accepts_short_entry:
  "init_search fw_straddle
     = Some (\<lparr>e_addr = 0x5FF00, e_size = 0x110, e_usable = True\<rparr>, 0x60000, 0x100) \<and>
   alloc_table (init_alloc_table fw_straddle (\<lambda>_. 0)) = 0x60000 \<and>
   alloc_count (init_alloc_table fw_straddle (\<lambda>_. 0)) = 2 \<and>
   length_above_threshold \<lparr>e_addr = 0x5FF00, e_size = 0x110, e_usable = True\<rparr> = 16 \<and>
   length_above_threshold \<lparr>e_addr = 0x5FF00, e_size = 0x110, e_usable = True\<rparr> < 2 * sizeof_alloc"
  by (simp add: fw_straddle_def eval_simps length_above_threshold_def)

section \<open>The copy of a relocation\<close>

text \<open>
  C5.  The spec asks that a relocation copy the \<open>size\<close> that the record had before the call.
  \<^verbatim>\<open>pure64_map_realloc\<close> stores the new size in the record first and then copies
  \<^verbatim>\<open>alloc->size\<close> bytes, the new size.  The block at \<open>0x100000\<close> of \<open>marked_block\<close> has
  \<open>size = 0x800\<close>; its reallocation to \<open>0x2000\<close> bytes moves it to \<open>0x101000\<close>, and the copy
  brings along the last byte of the block, \<open>0x55\<close>, and also the byte after the old size,
  \<open>0xAA\<close>, to an address that held \<open>0\<close>.
\<close>

theorem realloc_copies_new_size:
  "read_alloc (mem marked_block) (alloc_slot 0x60030 2)
     = \<lparr>a_addr = 0x100000, a_size = 0x800, a_reserved = 0x1000\<rparr> \<and>
   mem marked_block 0x1007FF = 0x55 \<and>
   mem marked_block 0x100800 = 0xAA \<and>
   mem marked_block 0x101800 = 0 \<and>
   fst (pure64_map_realloc marked_block 0x100000 0x2000) = 0x101000 \<and>
   mem (snd (pure64_map_realloc marked_block 0x100000 0x2000)) 0x1017FF = 0x55 \<and>
   mem (snd (pure64_map_realloc marked_block 0x100000 0x2000)) 0x101800 = 0xAA"
  by (simp add: marked_block_def scenario_defs eval_simps load64_fun_upd_other
      memcpy_byte_inside memcpy_outside store64_outside)

section \<open>Exact fit\<close>

text \<open>
  C6.  The spec asks that an entry be given up only when the candidate plus the size is
  beyond the end of the entry.  The source gives it up on \<^verbatim>\<open>>=\<close>.  In the region
  \<open>[0x60000, 0x61030)\<close> the table takes 48 bytes; for a request of \<open>0x1000\<close> bytes the scan
  advances the candidate to \<open>0x60030\<close>, where the block would end exactly at the end of the
  region, leaves the loop at index 1 by \<^verbatim>\<open>break\<close>, and the placement and the allocation
  return the null pointer.  With one more byte in the region the placement returns
  \<open>0x60030\<close>.
\<close>

theorem exact_fit_is_rejected:
  "scan_alloc_table (mem (init_alloc_table fw_tight (\<lambda>_. 0))) 0x60000 2 0x1000 0x60000 0x1030 0 0x60000
     = (1, 0x60030) \<and>
   (0x60030 :: u64) + 0x1000 = 0x60000 + 0x1030 \<and>
   find_suitable_addr (init_alloc_table fw_tight (\<lambda>_. 0)) 0x1000 = NULL \<and>
   fst (pure64_map_malloc (init_alloc_table fw_tight (\<lambda>_. 0)) 0x1000) = NULL \<and>
   find_suitable_addr (init_alloc_table fw_loose (\<lambda>_. 0)) 0x1000 = 0x60030"
  by (simp add: fw_tight_def fw_loose_def eval_simps)

end
